theory Spec2Isabelle
  imports Complex_Main
begin

section \<open>Values of the JavaScript program\<close>

text \<open>
  The repository is one Next.js route, \<^verbatim>\<open>app/api/flight-search/route.js\<close>, with an older
  copy of the same file. The embedding follows \<^verbatim>\<open>route.js\<close>; the copy differs only in the
  base URL (always the test host) and in how the CORS allow-list is read.

  Numbers. A JavaScript number is an IEEE double. The embedding uses exact rationals: every
  integer of magnitude below \<open>2^53\<close> is a double, and comparison is exact. The two divisions of the code
  (by 60 and by 10) round in the program and are exact here, so a result such as \<open>7.5\<close> or
  \<open>2.3\<close> stands for the double that prints that way.

  Strings are lists of ASCII characters.

  A field of the request body is absent, \<^verbatim>\<open>null\<close> or a value (a destructuring default
  only replaces an absent field). A field of a provider response is an \<open>option\<close>: the code
  reads these with \<^verbatim>\<open>?.\<close>, \<^verbatim>\<open>??\<close> and \<^verbatim>\<open>||\<close>, which do not tell \<^verbatim>\<open>null\<close>
  from \<^verbatim>\<open>undefined\<close>.
\<close>

type_synonym jsnum = rat

datatype 'a js = Undefined | Null | Val 'a

text \<open>Truthiness of an optional string: \<^verbatim>\<open>null\<close>, \<^verbatim>\<open>undefined\<close> and \<^verbatim>\<open>""\<close> are falsy.\<close>

definition truthy :: "string option \<Rightarrow> bool" where
  "truthy v = (case v of None \<Rightarrow> False | Some s \<Rightarrow> s \<noteq> [])"

text \<open>\<^verbatim>\<open>Math.round\<close>: the nearest integer, a tie going up.\<close>

definition Math_round :: "jsnum \<Rightarrow> jsnum" where
  "Math_round x = of_int \<lfloor>x + 1 / 2\<rfloor>"

section \<open>Duration parser\<close>

text \<open>
  \<^verbatim>\<open>
  function isoDurationToHours(iso) {
    if (!iso || !iso.startsWith("PT")) return 0;
    const h = (iso.match(/(\d+)H/) || [])[1];
    const m = (iso.match(/(\d+)M/) || [])[1];
    const hours = (h ? parseInt(h) : 0) + (m ? parseInt(m) / 60 : 0);
    return Math.round(hours * 10) / 10;
  }
  \<close>
\<close>

definition startsWith :: "string \<Rightarrow> string \<Rightarrow> bool" where
  "startsWith s p = (take (length p) s = p)"

definition is_digit :: "char \<Rightarrow> bool" where
  "is_digit c = ((48::nat) \<le> of_char c \<and> of_char c \<le> (57::nat))"

text \<open>
  \<open>match_digits_then c s\<close> is group 1 of \<^verbatim>\<open>s.match(/(\d+)c/)\<close> for a marker \<open>c\<close> that is
  not a digit: the leftmost position where digits are followed by \<open>c\<close>. At a position the
  greedy \<^verbatim>\<open>\d+\<close> takes the whole run of digits; giving digits back cannot help, since the
  character after a shorter run is a digit and not the marker. When the attempt fails the
  search moves one character on. \<open>None\<close> is the \<^verbatim>\<open>undefined\<close> of a failed match.
\<close>

fun match_digits_then :: "char \<Rightarrow> string \<Rightarrow> string option" where
  "match_digits_then c [] = None"
| "match_digits_then c (x # xs) =
     (let ds = takeWhile is_digit (x # xs); rest = dropWhile is_digit (x # xs)
      in if ds \<noteq> [] \<and> (case rest of [] \<Rightarrow> False | y # _ \<Rightarrow> y = c)
         then Some ds
         else match_digits_then c xs)"

text \<open>\<^verbatim>\<open>parseInt\<close> on a capture of \<^verbatim>\<open>\d+\<close>, which is a string of decimal digits.\<close>

definition digit_val :: "char \<Rightarrow> nat" where
  "digit_val c = of_char c - 48"

definition parseInt :: "string \<Rightarrow> jsnum" where
  "parseInt s = of_nat (foldl (\<lambda>n c. 10 * n + digit_val c) 0 s)"

definition isoDurationToHours :: "string option \<Rightarrow> jsnum" where
  "isoDurationToHours d =
     (case d of
        None \<Rightarrow> 0
      | Some s \<Rightarrow>
          if s = [] \<or> \<not> startsWith s ''PT'' then 0
          else let h = match_digits_then (CHR ''H'') s;
                   m = match_digits_then (CHR ''M'') s;
                   hours = (case h of Some hs \<Rightarrow> parseInt hs | None \<Rightarrow> 0)
                         + (case m of Some ms \<Rightarrow> parseInt ms / 60 | None \<Rightarrow> 0)
               in Math_round (hours * 10) / 10)"

section \<open>Token cache\<close>

text \<open>
  \<^verbatim>\<open>let tokenCache = { token: null, expiresAt: 0 };\<close>
  The module-level slot is passed in and returned. What the program reads from outside is
  an argument: the clock readings and the outcome of each \<^verbatim>\<open>fetch\<close>. What it sends is
  returned as a list of network calls, in the order made.
\<close>

record tokenCache =
  token :: "string option"
  expiresAt :: jsnum

definition tokenCache_init :: tokenCache where
  "tokenCache_init = \<lparr>token = None, expiresAt = 0\<rparr>"

record process_env =
  AMADEUS_ENV :: "string option"
  AMADEUS_CLIENT_ID :: "string option"
  AMADEUS_CLIENT_SECRET :: "string option"
  ALLOWED_ORIGINS :: "string option"
  ALLOWED_ORIGIN :: "string option"

text \<open>A thrown value: the name of the error class and the message.\<close>

datatype js_error = JsError (err_name: string) (message: string)

text \<open>
  A response of \<^verbatim>\<open>fetch\<close>: \<open>body_text\<close> is what \<^verbatim>\<open>resp.text()\<close> resolves to,
  \<open>json\<close> what \<^verbatim>\<open>resp.json()\<close> does: a rejection, or the parsed value, which may be
  \<^verbatim>\<open>null\<close> (\<open>None\<close>).
\<close>

record 'a http_response =
  ok :: bool
  http_status :: nat
  body_text :: string
  json :: "js_error + 'a option"

datatype 'a fetch_outcome = Rejects js_error | Resolves "'a http_response"

record token_json =
  access_token :: "string option"
  expires_in :: "jsnum option"

record search_params =
  originLocationCode :: string
  destinationLocationCode :: string
  departureDate :: string
  p_adults :: jsnum
  currencyCode :: string
  max_results :: string
  nonStop :: string
  p_returnDate :: "string option"

datatype net_call =
    TokenCall string "(string \<times> string) list"
  | SearchCall string search_params "string option"

text \<open>\<^verbatim>\<open>x || d\<close> on an optional string.\<close>

definition or_str :: "string option \<Rightarrow> string \<Rightarrow> string" where
  "or_str v d = (case v of None \<Rightarrow> d | Some s \<Rightarrow> if s = [] then d else s)"

definition base_url :: "process_env \<Rightarrow> string" where
  "base_url env =
     (if or_str (AMADEUS_ENV env) ''test'' = ''production''
      then ''https://api.amadeus.com''
      else ''https://test.api.amadeus.com'')"

definition token_call :: "process_env \<Rightarrow> net_call" where
  "token_call env =
     TokenCall (base_url env @ ''/v1/security/oauth2/token'')
       [(''grant_type'', ''client_credentials''),
        (''client_id'', or_str (AMADEUS_CLIENT_ID env) []),
        (''client_secret'', or_str (AMADEUS_CLIENT_SECRET env) [])]"

text \<open>The test of line 23: \<^verbatim>\<open>tokenCache.token && now < tokenCache.expiresAt - 60_000\<close>.\<close>

definition cache_valid :: "jsnum \<Rightarrow> tokenCache \<Rightarrow> bool" where
  "cache_valid now c = (truthy (token c) \<and> now < expiresAt c - 60000)"

text \<open>\<^verbatim>\<open>data.expires_in || 0\<close>.\<close>

definition or_num :: "jsnum option \<Rightarrow> jsnum \<Rightarrow> jsnum" where
  "or_num v d = (case v of None \<Rightarrow> d | Some x \<Rightarrow> if x = 0 then d else x)"

text \<open>
  \<open>getAmadeusToken env now outcome now2 c\<close>: \<open>now\<close> is the first \<^verbatim>\<open>Date.now()\<close>,
  \<open>outcome\<close> what the \<^verbatim>\<open>fetch\<close> of the token endpoint does if it is made, \<open>now2\<close> the
  \<^verbatim>\<open>Date.now()\<close> after the response is parsed. The result is the returned token or the
  thrown error, the slot afterwards, and the calls made.
\<close>

definition getAmadeusToken ::
  "process_env \<Rightarrow> jsnum \<Rightarrow> token_json fetch_outcome \<Rightarrow> jsnum \<Rightarrow> tokenCache
     \<Rightarrow> (js_error + string option) \<times> tokenCache \<times> net_call list" where
  "getAmadeusToken env now outcome now2 c =
     (if cache_valid now c then (Inr (token c), c, [])
      else (case outcome of
        Rejects e \<Rightarrow> (Inl e, c, [token_call env])
      | Resolves resp \<Rightarrow>
          if \<not> ok resp
          then (Inl (JsError ''Error'' (''Amadeus OAuth failed: '' @ body_text resp)), c,
                [token_call env])
          else (case json resp of
            Inl e \<Rightarrow> (Inl e, c, [token_call env])
          | Inr None \<Rightarrow>
              (Inl (JsError ''TypeError'' ''Cannot read properties of null''), c,
               [token_call env])
          | Inr (Some data) \<Rightarrow>
              (let c' = c\<lparr>token := access_token data\<rparr>;
                   c'' = c'\<lparr>expiresAt := now2 + or_num (expires_in data) 0 * 1000\<rparr>
               in (Inr (token c''), c'', [token_call env])))))"

section \<open>Offer normalizer\<close>

text \<open>The provider's offer, as the code reads it. Entries of its arrays may be \<^verbatim>\<open>null\<close>.\<close>

record raw_endpoint =
  iataCode :: "string option"
  at_time :: "string option"

record raw_segment =
  departure :: "raw_endpoint option"
  arrival :: "raw_endpoint option"
  carrierCode :: "string option"
  number :: "string option"

record raw_itinerary =
  duration :: "string option"
  segments :: "raw_segment option list option"

record raw_price =
  price_total :: "string option"
  price_currency :: "string option"

record raw_offer =
  price :: "raw_price option"
  itineraries :: "raw_itinerary option list option"
  validatingAirlineCodes :: "string option list option"

text \<open>The normalized offer of the response.\<close>

record segment =
  seg_from :: "string option"
  seg_to :: "string option"
  depart :: "string option"
  arrive :: "string option"
  carrier :: "string option"
  seg_number :: "string option"

record itinerary =
  durationHours :: jsnum
  it_segments :: "segment list"

record offer =
  o_price :: "string option"
  o_currency :: "string js"
  totalDurationHours :: jsnum
  o_itineraries :: "itinerary list"
  airlines :: "string option list"

text \<open>\<^verbatim>\<open>xs || []\<close>: an array is truthy, also the empty one.\<close>

definition or_empty :: "'a list option \<Rightarrow> 'a list" where
  "or_empty v = (case v of None \<Rightarrow> [] | Some xs \<Rightarrow> xs)"

text \<open>
  \<^verbatim>\<open>Array.from(new Set(xs))\<close>: a Set keeps its elements in insertion order, and adding an
  element it already has changes nothing.
\<close>

definition set_add :: "'a list \<Rightarrow> 'a \<Rightarrow> 'a list" where
  "set_add acc x = (if x \<in> set acc then acc else acc @ [x])"

definition new_Set :: "'a list \<Rightarrow> 'a list" where
  "new_Set xs = foldl set_add [] xs"

definition normalize_segment :: "raw_segment option \<Rightarrow> segment" where
  "normalize_segment s =
     \<lparr>seg_from = Option.bind (Option.bind s departure) iataCode,
      seg_to = Option.bind (Option.bind s arrival) iataCode,
      depart = Option.bind (Option.bind s departure) at_time,
      arrive = Option.bind (Option.bind s arrival) at_time,
      carrier = Option.bind s carrierCode,
      seg_number = Option.bind s number\<rparr>"

definition normalize_itinerary :: "raw_itinerary option \<Rightarrow> itinerary" where
  "normalize_itinerary it =
     \<lparr>durationHours = isoDurationToHours (Option.bind it duration),
      it_segments = map normalize_segment (or_empty (Option.bind it segments))\<rparr>"

text \<open>
  \<^verbatim>\<open>
  const airlines = Array.from(new Set(
    (offer?.validatingAirlineCodes || []).concat(
      (offer?.itineraries || []).flatMap(it => (it?.segments || []).map(s => s?.carrierCode)).filter(Boolean)
    )
  ));
  \<close>
  The \<^verbatim>\<open>.filter(Boolean)\<close> is applied to the result of \<^verbatim>\<open>flatMap\<close>, inside the argument
  of \<^verbatim>\<open>concat\<close>.
\<close>

definition segment_carriers :: "raw_offer option \<Rightarrow> string option list" where
  "segment_carriers off =
     concat (map (\<lambda>it. map (\<lambda>s. Option.bind s carrierCode) (or_empty (Option.bind it segments)))
                 (or_empty (Option.bind off itineraries)))"

definition offer_airlines :: "raw_offer option \<Rightarrow> string option list" where
  "offer_airlines off =
     new_Set (or_empty (Option.bind off validatingAirlineCodes)
              @ filter truthy (segment_carriers off))"

text \<open>\<^verbatim>\<open>it.durationHours || 0\<close>.\<close>

definition or_zero :: "jsnum \<Rightarrow> jsnum" where
  "or_zero x = (if x = 0 then 0 else x)"

text \<open>
  \<^verbatim>\<open>
  const totalDurationHours = Math.round(
    itineraries.reduce((sum, it) => sum + (it.durationHours || 0), 0) * 10
  ) / 10;
  \<close>
\<close>

definition total_duration :: "itinerary list \<Rightarrow> jsnum" where
  "total_duration its =
     Math_round (foldl (\<lambda>sum it. sum + or_zero (durationHours it)) 0 its * 10) / 10"

text \<open>The body of the \<^verbatim>\<open>map\<close> over the offers; \<open>cur\<close> is the request's currency.\<close>

definition normalize_offer :: "string js \<Rightarrow> raw_offer option \<Rightarrow> offer" where
  "normalize_offer cur off =
     (let its = map normalize_itinerary (or_empty (Option.bind off itineraries))
      in \<lparr>o_price = Option.bind (Option.bind off price) price_total,
          o_currency = (case Option.bind (Option.bind off price) price_currency of
                          Some c \<Rightarrow> Val c | None \<Rightarrow> cur),
          totalDurationHours = total_duration its,
          o_itineraries = its,
          airlines = offer_airlines off\<rparr>)"

section \<open>Request handler\<close>

definition DACH_IATA :: "string list" where
  "DACH_IATA =
     [''BER'', ''BRE'', ''CGN'', ''DTM'', ''DRS'', ''DUS'', ''FRA'', ''HHN'', ''FDH'', ''HAM'',
      ''HAJ'', ''FKB'', ''LEJ'', ''FMM'', ''MUC'', ''FMO'', ''NUE'', ''PAD'', ''STR'', ''NRN'',
      ''GRZ'', ''INN'', ''KLU'', ''LNZ'', ''SZG'', ''VIE'',
      ''BSL'', ''BRN'', ''GVA'', ''LUG'', ''SIR'', ''ACH'', ''ZRH'']"

text \<open>
  The JSON body of the request, as the destructuring reads it. The fields hold what the
  interface declares: strings, and numbers for \<open>adults\<close> and \<open>maxFlightHours\<close>.
\<close>

record req_body =
  origin :: "string js"
  destination :: "string js"
  departDate :: "string js"
  returnDate :: "string js"
  adults :: "jsnum js"
  currency :: "string js"
  maxFlightHours :: "jsnum js"

text \<open>
  \<open>header_origin\<close> is \<^verbatim>\<open>request.headers.get("origin")\<close>, \<open>req_json\<close> what
  \<^verbatim>\<open>request.json()\<close> does.
\<close>

record request =
  header_origin :: "string option"
  req_json :: "js_error + req_body"

record query =
  q_origin :: string
  q_destination :: string
  q_departDate :: "string js"
  q_returnDate :: "string option"
  q_adults :: "jsnum js"
  q_currency :: "string js"
  q_maxFlightHours :: "jsnum option"

text \<open>\<open>fetchedAt\<close> is kept as the clock reading that \<^verbatim>\<open>toISOString\<close> prints.\<close>

record envelope =
  query :: query
  fetchedAt :: jsnum
  count :: nat
  results :: "offer list"

text \<open>The JSON of a response: \<^verbatim>\<open>{error, details?}\<close> or the success envelope.\<close>

datatype resp_body =
    ErrorBody string "string option"
  | SuccessBody envelope

record response =
  status :: nat
  body :: resp_body
  headers :: "string \<rightharpoonup> string"

text \<open>The body of the offer search, \<^verbatim>\<open>{data: [offer...]}\<close>.\<close>

record search_json =
  data :: "raw_offer option list option"

text \<open>What one run of the handler reads from outside, in the order it reads it.\<close>

record world =
  now_access :: jsnum
  token_fetch :: "token_json fetch_outcome"
  now_refresh :: jsnum
  search_fetch :: "search_json fetch_outcome"
  now_reply :: jsnum

text \<open>\<^verbatim>\<open>trim\<close> and \<^verbatim>\<open>toUpperCase\<close> on ASCII strings.\<close>

definition is_space :: "char \<Rightarrow> bool" where
  "is_space c = (of_char c = (32::nat) \<or> ((9::nat) \<le> of_char c \<and> of_char c \<le> (13::nat)))"

definition trim :: "string \<Rightarrow> string" where
  "trim s = rev (dropWhile is_space (rev (dropWhile is_space s)))"

definition to_upper :: "char \<Rightarrow> char" where
  "to_upper c =
     (if (97::nat) \<le> of_char c \<and> of_char c \<le> (122::nat)
      then char_of (of_char c - (32::nat)) else c)"

definition toUpperCase :: "string \<Rightarrow> string" where
  "toUpperCase s = map to_upper s"

text \<open>\<^verbatim>\<open>String(v)\<close> on a field that holds a string.\<close>

definition String_js :: "string js \<Rightarrow> string" where
  "String_js v = (case v of Undefined \<Rightarrow> ''undefined'' | Null \<Rightarrow> ''null'' | Val s \<Rightarrow> s)"

text \<open>
  \<^verbatim>\<open>const bad = v => v === undefined || v === null || (typeof v === "string" && v.trim() === "");\<close>
\<close>

definition bad :: "string js \<Rightarrow> bool" where
  "bad v = (case v of Undefined \<Rightarrow> True | Null \<Rightarrow> True | Val s \<Rightarrow> trim s = [])"

definition truthy_str :: "string js \<Rightarrow> bool" where
  "truthy_str v = (case v of Val s \<Rightarrow> s \<noteq> [] | _ \<Rightarrow> False)"

definition truthy_num :: "jsnum js \<Rightarrow> bool" where
  "truthy_num v = (case v of Val n \<Rightarrow> n \<noteq> 0 | _ \<Rightarrow> False)"

text \<open>\<^verbatim>\<open>Number(v)\<close> on a field that holds a number; \<open>None\<close> is \<^verbatim>\<open>NaN\<close>.\<close>

definition Number_js :: "jsnum js \<Rightarrow> jsnum option" where
  "Number_js v = (case v of Undefined \<Rightarrow> None | Null \<Rightarrow> Some 0 | Val n \<Rightarrow> Some n)"

text \<open>A destructuring default: it replaces \<^verbatim>\<open>undefined\<close> only.\<close>

definition default_to :: "'a \<Rightarrow> 'a js \<Rightarrow> 'a js" where
  "default_to d v = (case v of Undefined \<Rightarrow> Val d | _ \<Rightarrow> v)"

text \<open>\<^verbatim>\<open>Math.min(Math.max(Number(adults) || 1, 1), 9)\<close>.\<close>

definition clamp_adults :: "jsnum js \<Rightarrow> jsnum" where
  "clamp_adults a =
     min (max (case Number_js a of None \<Rightarrow> 1 | Some n \<Rightarrow> if n = 0 then 1 else n) 1) 9"

definition split_on :: "char \<Rightarrow> string \<Rightarrow> string list" where
  "split_on c s =
     foldr (\<lambda>x acc. if x = c then [] # acc
                     else (case acc of [] \<Rightarrow> [[x]] | y # ys \<Rightarrow> (x # y) # ys)) s [[]]"

definition parseAllowedOrigins :: "process_env \<Rightarrow> string list" where
  "parseAllowedOrigins env =
     (let multi = filter (\<lambda>s. s \<noteq> []) (map trim (split_on (CHR '','') (or_str (ALLOWED_ORIGINS env) [])));
          single = trim (or_str (ALLOWED_ORIGIN env) []);
          base = filter (\<lambda>s. s \<noteq> []) (multi @ [single]);
          dev = [''http://localhost:3000'', ''http://127.0.0.1:3000'']
      in new_Set (base @ dev))"

definition withCORS :: "process_env \<Rightarrow> response \<Rightarrow> string option \<Rightarrow> response" where
  "withCORS env res orig =
     (let allowedOrigins = parseAllowedOrigins env;
          h1 = (case orig of
                  None \<Rightarrow> headers res
                | Some og \<Rightarrow>
                    if og \<noteq> [] \<and> og \<in> set allowedOrigins
                    then (headers res)(''Access-Control-Allow-Origin'' \<mapsto> og, ''Vary'' \<mapsto> ''Origin'')
                    else headers res)
      in res\<lparr>headers := h1(''Access-Control-Allow-Methods'' \<mapsto> ''POST, OPTIONS'',
                             ''Access-Control-Allow-Headers'' \<mapsto> ''Content-Type'')\<rparr>)"

definition NextResponse_json :: "resp_body \<Rightarrow> nat \<Rightarrow> response" where
  "NextResponse_json b st = \<lparr>status = st, body = b, headers = Map.empty\<rparr>"

text \<open>
  The \<^verbatim>\<open>catch\<close> of the handler:
  \<^verbatim>\<open>{ error: "Server error", details: String(e?.message || e) }\<close> with status 500.
\<close>

definition error_details :: "js_error \<Rightarrow> string" where
  "error_details e = (if message e \<noteq> [] then message e else err_name e)"

definition server_error :: "process_env \<Rightarrow> request \<Rightarrow> js_error \<Rightarrow> response" where
  "server_error env req e =
     withCORS env (NextResponse_json (ErrorBody ''Server error'' (Some (error_details e))) 500)
       (header_origin req)"

definition search_call :: "process_env \<Rightarrow> string \<Rightarrow> string \<Rightarrow> req_body \<Rightarrow> string option \<Rightarrow> net_call" where
  "search_call env ORI DST b tok =
     SearchCall (base_url env @ ''/v2/shopping/flight-offers'')
       \<lparr>originLocationCode = ORI,
        destinationLocationCode = DST,
        departureDate = String_js (departDate b),
        p_adults = clamp_adults (default_to 1 (adults b)),
        currencyCode = (if truthy_str (default_to ''EUR'' (currency b))
                        then String_js (default_to ''EUR'' (currency b)) else ''EUR''),
        max_results = ''20'',
        nonStop = ''false'',
        p_returnDate = (if truthy_str (returnDate b) then Some (String_js (returnDate b)) else None)\<rparr>
       tok"

text \<open>
  \<^verbatim>\<open>
  const filtered =
    (maxFlightHours && Number(maxFlightHours) > 0)
      ? items.filter(x => x.totalDurationHours <= Number(maxFlightHours))
      : items;
  \<close>
\<close>

definition filter_offers :: "jsnum js \<Rightarrow> offer list \<Rightarrow> offer list" where
  "filter_offers mfh items =
     (if truthy_num mfh \<and> (case Number_js mfh of None \<Rightarrow> False | Some n \<Rightarrow> n > 0)
      then filter (\<lambda>x. case Number_js mfh of None \<Rightarrow> False
                                           | Some n \<Rightarrow> totalDurationHours x \<le> n) items
      else items)"

definition make_query :: "string \<Rightarrow> string \<Rightarrow> req_body \<Rightarrow> query" where
  "make_query ORI DST b =
     \<lparr>q_origin = ORI,
      q_destination = DST,
      q_departDate = departDate b,
      q_returnDate = (if truthy_str (returnDate b) then Some (String_js (returnDate b)) else None),
      q_adults = default_to 1 (adults b),
      q_currency = default_to ''EUR'' (currency b),
      q_maxFlightHours = (case maxFlightHours b of Val n \<Rightarrow> if n = 0 then None else Some n
                                                | _ \<Rightarrow> None)\<rparr>"

text \<open>
  \<open>POST env w c req\<close>: the response, the token slot afterwards and the network calls made,
  for the slot \<open>c\<close> before and the outside world \<open>w\<close>.
\<close>

definition POST ::
  "process_env \<Rightarrow> world \<Rightarrow> tokenCache \<Rightarrow> request \<Rightarrow> response \<times> tokenCache \<times> net_call list" where
  "POST env w c req =
     (case req_json req of
        Inl e \<Rightarrow> (server_error env req e, c, [])
      | Inr b \<Rightarrow>
          if bad (origin b) \<or> bad (destination b) \<or> bad (departDate b)
             \<or> \<not> truthy_num (default_to 1 (adults b))
          then (withCORS env (NextResponse_json (ErrorBody ''Missing required fields'' None) 400)
                  (header_origin req), c, [])
          else
            (let ORI = take 3 (toUpperCase (String_js (origin b)));
                 DST = take 3 (toUpperCase (String_js (destination b)))
             in if ORI \<notin> set DACH_IATA
                then (withCORS env
                        (NextResponse_json (ErrorBody ''Origin not allowed (DACH only)'' None) 400)
                        (header_origin req), c, [])
                else
                  (case getAmadeusToken env (now_access w) (token_fetch w) (now_refresh w) c of
                     (Inl e, c', calls) \<Rightarrow> (server_error env req e, c', calls)
                   | (Inr tok, c', calls) \<Rightarrow>
                       (let calls' = calls @ [search_call env ORI DST b tok]
                        in (case search_fetch w of
                              Rejects e \<Rightarrow> (server_error env req e, c', calls')
                            | Resolves resp \<Rightarrow>
                                if \<not> ok resp
                                then (withCORS env
                                        (NextResponse_json
                                           (ErrorBody ''Amadeus API error'' (Some (body_text resp)))
                                           (http_status resp))
                                        (header_origin req), c', calls')
                                else
                                  (case json resp of
                                     Inl e \<Rightarrow> (server_error env req e, c', calls')
                                   | Inr d \<Rightarrow>
                                       (let items = map (normalize_offer (default_to ''EUR'' (currency b)))
                                                        (or_empty (Option.bind d data));
                                            filtered = filter_offers (maxFlightHours b) items
                                        in (withCORS env
                                              (NextResponse_json
                                                 (SuccessBody
                                                    \<lparr>query = make_query ORI DST b,
                                                     fetchedAt = now_reply w,
                                                     count = length filtered,
                                                     results = filtered\<rparr>) 200)
                                              (header_origin req), c', calls'))))))))"

section \<open>Notions of the specification\<close>


text \<open>Rounding to one decimal place: ten times the value, to the nearest integer with a tie
  going up, divided by ten.\<close>

definition round_tenth :: "rat \<Rightarrow> rat" where
  "round_tenth x = of_int \<lfloor>x * 10 + 1 / 2\<rfloor> / 10"

text \<open>A list without its repetitions, each element where it first occurs.\<close>

fun first_occurrences :: "'a list \<Rightarrow> 'a list" where
  "first_occurrences [] = []"
| "first_occurrences (x # xs) = x # filter (\<lambda>y. y \<noteq> x) (first_occurrences xs)"

section \<open>Example inputs\<close>

definition ex_env :: process_env where
  "ex_env = \<lparr>AMADEUS_ENV = None, AMADEUS_CLIENT_ID = Some ''id'',
             AMADEUS_CLIENT_SECRET = Some ''secret'',
             ALLOWED_ORIGINS = None, ALLOWED_ORIGIN = None\<rparr>"

definition ex_denied :: "token_json fetch_outcome" where
  "ex_denied =
     Resolves \<lparr>ok = False, http_status = 401, body_text = ''denied'',
               json = Inl (JsError ''SyntaxError'' ''Unexpected token'')\<rparr>"

definition ex_granted :: "token_json fetch_outcome" where
  "ex_granted =
     Resolves \<lparr>ok = True, http_status = 200, body_text = [],
               json = Inr (Some \<lparr>access_token = Some ''tok1'', expires_in = Some 1799\<rparr>)\<rparr>"

definition ex_granted_no_lifetime :: "token_json fetch_outcome" where
  "ex_granted_no_lifetime =
     Resolves \<lparr>ok = True, http_status = 200, body_text = [],
               json = Inr (Some \<lparr>access_token = Some ''tok2'', expires_in = None\<rparr>)\<rparr>"

definition ex_cache :: tokenCache where
  "ex_cache = \<lparr>token = Some ''tok0'', expiresAt = 1800000\<rparr>"

definition ex_segment :: "string \<Rightarrow> string \<Rightarrow> string option \<Rightarrow> raw_segment" where
  "ex_segment a b cc =
     \<lparr>departure = Some \<lparr>iataCode = Some a, at_time = Some ''2025-06-01T08:00:00''\<rparr>,
      arrival = Some \<lparr>iataCode = Some b, at_time = Some ''2025-06-01T10:15:00''\<rparr>,
      carrierCode = cc, number = Some ''100''\<rparr>"

definition ex_offer_short :: raw_offer where
  "ex_offer_short =
     \<lparr>price = Some \<lparr>price_total = Some ''120.50'', price_currency = Some ''EUR''\<rparr>,
      itineraries = Some [Some \<lparr>duration = Some ''PT2H15M'',
                                segments = Some [Some (ex_segment ''FRA'' ''PMI'' (Some ''LH''))]\<rparr>],
      validatingAirlineCodes = Some [Some ''LH'']\<rparr>"

definition ex_offer_long :: raw_offer where
  "ex_offer_long =
     \<lparr>price = Some \<lparr>price_total = Some ''310.00'', price_currency = None\<rparr>,
      itineraries = Some [Some \<lparr>duration = Some ''PT2H15M'',
                                segments = Some [Some (ex_segment ''FRA'' ''MAD'' (Some ''IB'')),
                                                 Some (ex_segment ''MAD'' ''PMI'' None)]\<rparr>,
                          Some \<lparr>duration = Some ''PT7H30M'',
                                segments = Some [Some (ex_segment ''PMI'' ''FRA'' (Some ''LH''))]\<rparr>],
      validatingAirlineCodes = Some [Some ''IB'']\<rparr>"

definition ex_offer_blank_code :: raw_offer where
  "ex_offer_blank_code =
     \<lparr>price = None,
      itineraries = Some [Some \<lparr>duration = Some ''PT1H'',
                                segments = Some [Some (ex_segment ''FRA'' ''VIE'' (Some ''LH''))]\<rparr>],
      validatingAirlineCodes = Some [Some ''LH'', Some '''']\<rparr>"

definition ex_body :: req_body where
  "ex_body =
     \<lparr>origin = Val ''fra'', destination = Val ''pmi'', departDate = Val ''2025-06-01'',
      returnDate = Undefined, adults = Val 20, currency = Undefined, maxFlightHours = Val 5\<rparr>"

definition ex_request :: "req_body \<Rightarrow> request" where
  "ex_request b = \<lparr>header_origin = Some ''http://localhost:3000'', req_json = Inr b\<rparr>"

definition ex_search_ok :: "search_json fetch_outcome" where
  "ex_search_ok =
     Resolves \<lparr>ok = True, http_status = 200, body_text = [],
               json = Inr (Some \<lparr>data = Some [Some ex_offer_short, Some ex_offer_long]\<rparr>)\<rparr>"

definition ex_world :: world where
  "ex_world =
     \<lparr>now_access = 1000, token_fetch = ex_granted, now_refresh = 1200,
      search_fetch = ex_search_ok, now_reply = 1500\<rparr>"



section \<open>The duration parser on well-formed and on malformed input\<close>




lemma parseInt_Nil: "parseInt [] = 0"
  by (simp add: parseInt_def)















section \<open>The token cache\<close>

lemma or_num_zero: "or_num v 0 = (case v of None \<Rightarrow> 0 | Some x \<Rightarrow> x)"
  by (simp add: or_num_def split: option.splits)

lemma cache_valid_iff:
  "cache_valid now c \<longleftrightarrow> (\<exists>t. token c = Some t \<and> t \<noteq> []) \<and> 60000 < expiresAt c - now"
  by (auto simp: cache_valid_def truthy_def split: option.splits)

lemma token_hit:
  "cache_valid now c \<Longrightarrow> getAmadeusToken env now outcome now2 c = (Inr (token c), c, [])"
  by (simp add: getAmadeusToken_def)

lemma token_miss_calls:
  "\<not> cache_valid now c \<Longrightarrow> snd (snd (getAmadeusToken env now outcome now2 c)) = [token_call env]"
  by (simp add: getAmadeusToken_def Let_def split: fetch_outcome.splits sum.splits option.splits)

lemma token_miss_granted:
  "\<not> cache_valid now c \<Longrightarrow> outcome = Resolves resp \<Longrightarrow> ok resp \<Longrightarrow> json resp = Inr (Some d)
     \<Longrightarrow> getAmadeusToken env now outcome now2 c =
           (Inr (access_token d),
            \<lparr>token = access_token d, expiresAt = now2 + or_num (expires_in d) 0 * 1000\<rparr>,
            [token_call env])"
  by (simp add: getAmadeusToken_def Let_def)

lemma token_miss_refused:
  "\<not> cache_valid now c \<Longrightarrow> outcome = Resolves resp \<Longrightarrow> \<not> ok resp
     \<Longrightarrow> getAmadeusToken env now outcome now2 c =
           (Inl (JsError ''Error'' (''Amadeus OAuth failed: '' @ body_text resp)), c, [token_call env])"
  by (simp add: getAmadeusToken_def)

lemma cache_invalid_later:
  "\<not> cache_valid now c \<Longrightarrow> now \<le> now' \<Longrightarrow> \<not> cache_valid now' c"
  by (auto simp: cache_valid_def)

text \<open>
  Claim C1, as amended. When a non-empty token is cached and the expiry is more than 60
  seconds (60000 ms) after the current time, \<open>getAmadeusToken\<close> returns the cached token,
  makes no network call and leaves the slot as it is. When no token is cached, or the
  cached one is empty, or the expiry is 60 seconds or less away, it makes exactly one
  credential exchange; when that exchange succeeds (a success status and a JSON object), it
  stores the new token with the expiry computed from the second clock reading and returns
  the new token.
\<close>

theorem getAmadeusToken_access:
  "((\<exists>t. token c = Some t \<and> t \<noteq> []) \<and> 60000 < expiresAt c - now
      \<longrightarrow> getAmadeusToken env now outcome now2 c = (Inr (token c), c, []))
   \<and> (token c = None \<or> token c = Some [] \<or> expiresAt c - now \<le> 60000
      \<longrightarrow> snd (snd (getAmadeusToken env now outcome now2 c)) = [token_call env]
        \<and> (\<forall>resp d. outcome = Resolves resp \<and> ok resp \<and> json resp = Inr (Some d)
             \<longrightarrow> getAmadeusToken env now outcome now2 c =
                   (Inr (access_token d),
                    \<lparr>token = access_token d,
                     expiresAt = now2 + (case expires_in d of None \<Rightarrow> 0 | Some x \<Rightarrow> x) * 1000\<rparr>,
                    [token_call env])))"
proof (intro conjI impI allI)
  assume "(\<exists>t. token c = Some t \<and> t \<noteq> []) \<and> 60000 < expiresAt c - now"
  then have "cache_valid now c" by (simp add: cache_valid_iff)
  then show "getAmadeusToken env now outcome now2 c = (Inr (token c), c, [])"
    by (rule token_hit)
next
  assume miss: "token c = None \<or> token c = Some [] \<or> expiresAt c - now \<le> 60000"
  then have inv: "\<not> cache_valid now c" by (auto simp: cache_valid_iff)
  then show "snd (snd (getAmadeusToken env now outcome now2 c)) = [token_call env]"
    by (rule token_miss_calls)
  fix resp d
  assume "outcome = Resolves resp \<and> ok resp \<and> json resp = Inr (Some d)"
  then show "getAmadeusToken env now outcome now2 c =
               (Inr (access_token d),
                \<lparr>token = access_token d,
                 expiresAt = now2 + (case expires_in d of None \<Rightarrow> 0 | Some x \<Rightarrow> x) * 1000\<rparr>,
                [token_call env])"
    using token_miss_granted [OF inv, where outcome = outcome and resp = resp and d = d
        and env = env and ?now2.0 = now2]
    by (simp add: or_num_zero)
qed

theorem getAmadeusToken_access_witness:
  "getAmadeusToken ex_env 1000 ex_granted 1200 ex_cache = (Inr (Some ''tok0''), ex_cache, [])
   \<and> getAmadeusToken ex_env 1740000 ex_granted 1740200 ex_cache
       = (Inr (Some ''tok1''), \<lparr>token = Some ''tok1'', expiresAt = 3539200\<rparr>, [token_call ex_env])
   \<and> getAmadeusToken ex_env 1000 ex_granted 1200 tokenCache_init
       = (Inr (Some ''tok1''), \<lparr>token = Some ''tok1'', expiresAt = 1800200\<rparr>, [token_call ex_env])"
  using getAmadeusToken_access [where c = ex_cache and now = 1000 and env = ex_env
      and outcome = ex_granted and ?now2.0 = 1200]
    getAmadeusToken_access [where c = ex_cache and now = 1740000 and env = ex_env
      and outcome = ex_granted and ?now2.0 = 1740200]
    getAmadeusToken_access [where c = tokenCache_init and now = 1000 and env = ex_env
      and outcome = ex_granted and ?now2.0 = 1200]
  by (simp add: ex_cache_def ex_granted_def tokenCache_init_def)

text \<open>
  Claim C1 as stated fails: on an empty slot an exchange that is refused updates nothing and
  returns no token.
\<close>

theorem getAmadeusToken_failed_exchange_counterexample:
  "token tokenCache_init = None
   \<and> fst (getAmadeusToken ex_env 1000 ex_denied 1200 tokenCache_init)
       = Inl (JsError ''Error'' ''Amadeus OAuth failed: denied'')
   \<and> fst (snd (getAmadeusToken ex_env 1000 ex_denied 1200 tokenCache_init)) = tokenCache_init"
  by (simp add: getAmadeusToken_def cache_valid_def truthy_def tokenCache_init_def ex_denied_def)

text \<open>
  Claim C4. When the credential exchange is made and answers with a non-success status,
  \<open>getAmadeusToken\<close> throws an error whose message ends with the raw response body, and
  the slot keeps its token and its expiry; an access at the same or a later time makes the
  exchange again.
\<close>

theorem getAmadeusToken_exchange_refused:
  assumes "\<not> cache_valid now c" and "outcome = Resolves resp" and "\<not> ok resp"
  shows "getAmadeusToken env now outcome now2 c
           = (Inl (JsError ''Error'' (''Amadeus OAuth failed: '' @ body_text resp)), c,
              [token_call env])
       \<and> (\<forall>now' outcome' now2'. now \<le> now'
             \<longrightarrow> snd (snd (getAmadeusToken env now' outcome' now2' c)) = [token_call env])"
  using token_miss_refused [OF assms] token_miss_calls cache_invalid_later [OF assms(1)]
  by blast

theorem getAmadeusToken_exchange_refused_witness:
  "\<not> cache_valid 1740000 ex_cache
   \<and> getAmadeusToken ex_env 1740000 ex_denied 1740200 ex_cache
       = (Inl (JsError ''Error'' ''Amadeus OAuth failed: denied''), ex_cache, [token_call ex_env])
   \<and> snd (snd (getAmadeusToken ex_env 1750000 ex_granted 1750200 ex_cache)) = [token_call ex_env]"
proof -
  have inv: "\<not> cache_valid 1740000 ex_cache"
    by (simp add: cache_valid_def ex_cache_def)
  have den: "ex_denied = Resolves \<lparr>ok = False, http_status = 401, body_text = ''denied'',
               json = Inl (JsError ''SyntaxError'' ''Unexpected token'')\<rparr>"
    by (simp add: ex_denied_def)
  show ?thesis
    using getAmadeusToken_exchange_refused [OF inv den, where env = ex_env and ?now2.0 = 1740200]
      inv
    by simp
qed

text \<open>
  Claim C10. When a successful exchange declares no lifetime, the expiry stored is the
  second clock reading, the instant of the refresh. At no time from that instant on does
  the slot pass the validity test, so every later access makes a new exchange.
\<close>

theorem getAmadeusToken_no_lifetime:
  assumes "\<not> cache_valid now c" and "outcome = Resolves resp" and "ok resp"
    and "json resp = Inr (Some d)" and "expires_in d = None"
  shows "expiresAt (fst (snd (getAmadeusToken env now outcome now2 c))) = now2
       \<and> (\<forall>now' outcome' now2'. now2 \<le> now'
             \<longrightarrow> \<not> cache_valid now' (fst (snd (getAmadeusToken env now outcome now2 c)))
               \<and> snd (snd (getAmadeusToken env now' outcome' now2'
                             (fst (snd (getAmadeusToken env now outcome now2 c)))))
                   = [token_call env])"
proof -
  let ?c1 = "fst (snd (getAmadeusToken env now outcome now2 c))"
  have c1: "?c1 = \<lparr>token = access_token d, expiresAt = now2\<rparr>"
    using token_miss_granted [OF assms(1-4), where env = env and ?now2.0 = now2] assms(5)
    by (simp add: or_num_def)
  have "\<not> cache_valid now' ?c1" if "now2 \<le> now'" for now'
    using that by (simp add: c1 cache_valid_def)
  then show ?thesis
    using token_miss_calls by (simp add: c1)
qed

theorem getAmadeusToken_no_lifetime_witness:
  "\<not> cache_valid 1000 tokenCache_init
   \<and> fst (snd (getAmadeusToken ex_env 1000 ex_granted_no_lifetime 1200 tokenCache_init))
       = \<lparr>token = Some ''tok2'', expiresAt = 1200\<rparr>
   \<and> snd (snd (getAmadeusToken ex_env 1200 ex_granted 1300 \<lparr>token = Some ''tok2'', expiresAt = 1200\<rparr>))
       = [token_call ex_env]"
proof -
  have inv: "\<not> cache_valid 1000 tokenCache_init"
    by (simp add: cache_valid_def tokenCache_init_def truthy_def)
  have out: "ex_granted_no_lifetime = Resolves \<lparr>ok = True, http_status = 200, body_text = [],
               json = Inr (Some \<lparr>access_token = Some ''tok2'', expires_in = None\<rparr>)\<rparr>"
    by (simp add: ex_granted_no_lifetime_def)
  have c1: "fst (snd (getAmadeusToken ex_env 1000 ex_granted_no_lifetime 1200 tokenCache_init))
       = \<lparr>token = Some ''tok2'', expiresAt = 1200\<rparr>"
    by (simp add: getAmadeusToken_def inv out or_num_def)
  show ?thesis
    using getAmadeusToken_no_lifetime [OF inv out, where env = ex_env and ?now2.0 = 1200
        and d = "\<lparr>access_token = Some ''tok2'', expires_in = None\<rparr>"] inv c1
    by simp
qed


section \<open>The offer normalizer\<close>

lemma filter_first_occurrences:
  "filter P (first_occurrences xs) = first_occurrences (filter P xs)"
proof (induction xs)
  case Nil
  show ?case by simp
next
  case (Cons x xs)
  have drop: "filter P (filter (\<lambda>y. y \<noteq> x) zs) = filter P zs" if "\<not> P x" for zs
    using that by (induction zs) auto
  show ?case
  proof (cases "P x")
    case True
    have "filter P (filter (\<lambda>y. y \<noteq> x) (first_occurrences xs))
            = filter (\<lambda>y. y \<noteq> x) (filter P (first_occurrences xs))"
      by (simp add: conj_commute)
    with True Cons.IH show ?thesis by simp
  next
    case False
    with Cons.IH drop show ?thesis by simp
  qed
qed

lemma foldl_set_add:
  "foldl set_add acc xs = acc @ first_occurrences (filter (\<lambda>y. y \<notin> set acc) xs)"
proof (induction xs arbitrary: acc)
  case Nil
  show ?case by simp
next
  case (Cons x xs)
  show ?case
  proof (cases "x \<in> set acc")
    case True
    then have "set_add acc x = acc" by (simp add: set_add_def)
    with True show ?thesis by (simp add: Cons.IH)
  next
    case False
    then have add: "set_add acc x = acc @ [x]" by (simp add: set_add_def)
    have "first_occurrences (filter (\<lambda>y. y \<notin> set (acc @ [x])) xs)
            = filter (\<lambda>y. y \<noteq> x) (first_occurrences (filter (\<lambda>y. y \<notin> set acc) xs))"
      by (simp add: filter_first_occurrences conj_commute)
    with False add show ?thesis by (simp add: Cons.IH)
  qed
qed

lemma new_Set_first_occurrences: "new_Set xs = first_occurrences xs"
  by (simp add: new_Set_def foldl_set_add)

lemma set_first_occurrences: "set (first_occurrences xs) = set xs"
  by (induction xs) auto

lemma distinct_first_occurrences: "distinct (first_occurrences xs)"
  by (induction xs) (auto simp: set_first_occurrences)

lemma airlines_normalize: "airlines (normalize_offer cur off) = offer_airlines off"
  by (simp add: normalize_offer_def Let_def)

text \<open>
  Claim C2, as amended. The \<open>airlines\<close> of a normalized offer are the offer's declared
  validating-airline codes, each as it is declared (also an empty or a \<^verbatim>\<open>null\<close> entry),
  followed by the carrier codes of all segments of all itineraries without the empty and
  absent ones, each element kept once at its first occurrence. When no declared code is
  empty or absent this is the list of the claim.
\<close>

theorem airlines_first_occurrences:
  "airlines (normalize_offer cur off)
     = first_occurrences (or_empty (Option.bind off validatingAirlineCodes)
                          @ filter truthy (segment_carriers off))
   \<and> distinct (airlines (normalize_offer cur off))
   \<and> ((\<forall>a\<in>set (or_empty (Option.bind off validatingAirlineCodes)). truthy a)
        \<longrightarrow> airlines (normalize_offer cur off)
              = first_occurrences (filter truthy (or_empty (Option.bind off validatingAirlineCodes))
                                   @ filter truthy (segment_carriers off)))"
proof -
  have eq: "airlines (normalize_offer cur off)
     = first_occurrences (or_empty (Option.bind off validatingAirlineCodes)
                          @ filter truthy (segment_carriers off))"
    by (simp add: airlines_normalize offer_airlines_def new_Set_first_occurrences)
  moreover have "distinct (airlines (normalize_offer cur off))"
    unfolding eq by (rule distinct_first_occurrences)
  moreover have "filter truthy vs = vs" if "\<forall>a\<in>set vs. truthy a" for vs
    using that by (simp add: filter_id_conv)
  ultimately show ?thesis by simp
qed

theorem airlines_first_occurrences_witness:
  "airlines (normalize_offer (Val ''EUR'') (Some ex_offer_long)) = [Some ''IB'', Some ''LH'']
   \<and> list_all truthy (or_empty (Option.bind (Some ex_offer_long) validatingAirlineCodes))
   \<and> segment_carriers (Some ex_offer_long) = [Some ''IB'', None, Some ''LH'']"
  using airlines_first_occurrences [of "Val ''EUR''" "Some ex_offer_long"]
  by (simp add: segment_carriers_def or_empty_def ex_offer_long_def ex_segment_def truthy_def)

text \<open>
  Claim C2 as stated fails: an empty entry among the declared codes is kept.
\<close>

theorem airlines_blank_code_counterexample:
  "airlines (normalize_offer (Val ''EUR'') (Some ex_offer_blank_code)) = [Some ''LH'', Some '''']
   \<and> first_occurrences
        (filter truthy (or_empty (Option.bind (Some ex_offer_blank_code) validatingAirlineCodes))
         @ filter truthy (segment_carriers (Some ex_offer_blank_code))) = [Some ''LH'']"
  by (simp add: airlines_normalize offer_airlines_def new_Set_def set_add_def
      segment_carriers_def or_empty_def ex_offer_blank_code_def ex_segment_def truthy_def)

lemma foldl_durations:
  "foldl (\<lambda>sum it. sum + or_zero (durationHours it)) a its = a + sum_list (map durationHours its)"
  by (induction its arbitrary: a) (simp_all add: or_zero_def)


lemma total_duration_round: "total_duration its = round_tenth (sum_list (map durationHours its))"
  by (simp add: total_duration_def foldl_durations Math_round_def round_tenth_def)




section \<open>The request handler\<close>

lemma status_withCORS [simp]: "status (withCORS env r orig) = status r"
  by (simp add: withCORS_def Let_def)

lemma body_withCORS [simp]: "body (withCORS env r orig) = body r"
  by (simp add: withCORS_def Let_def)

lemma body_server_error [simp]:
  "body (server_error env req e) = ErrorBody ''Server error'' (Some (error_details e))"
  by (simp add: server_error_def NextResponse_json_def)

lemma POST_success:
  assumes "body (fst (POST env w c req)) = SuccessBody e"
  obtains b resp d tok c' calls where
    "req_json req = Inr b"
    "\<not> bad (origin b)" "\<not> bad (destination b)" "\<not> bad (departDate b)"
    "truthy_num (default_to 1 (adults b))"
    "take 3 (toUpperCase (String_js (origin b))) \<in> set DACH_IATA"
    "getAmadeusToken env (now_access w) (token_fetch w) (now_refresh w) c = (Inr tok, c', calls)"
    "search_fetch w = Resolves resp" "ok resp" "json resp = Inr d"
    "e = \<lparr>query = make_query (take 3 (toUpperCase (String_js (origin b))))
                             (take 3 (toUpperCase (String_js (destination b)))) b,
          fetchedAt = now_reply w,
          count = length (filter_offers (maxFlightHours b)
                    (map (normalize_offer (default_to ''EUR'' (currency b)))
                         (or_empty (Option.bind d data)))),
          results = filter_offers (maxFlightHours b)
                    (map (normalize_offer (default_to ''EUR'' (currency b)))
                         (or_empty (Option.bind d data)))\<rparr>"
    "snd (POST env w c req)
       = (c', calls @ [search_call env (take 3 (toUpperCase (String_js (origin b))))
                         (take 3 (toUpperCase (String_js (destination b)))) b tok])"
  using assms
  by (auto simp: POST_def Let_def NextResponse_json_def
      split: sum.splits if_splits prod.splits fetch_outcome.splits)


lemma POST_reaches_success:
  assumes "req_json req = Inr b"
    and "\<not> bad (origin b)" "\<not> bad (destination b)" "\<not> bad (departDate b)"
    and "truthy_num (default_to 1 (adults b))"
    and "take 3 (toUpperCase (String_js (origin b))) \<in> set DACH_IATA"
    and "getAmadeusToken env (now_access w) (token_fetch w) (now_refresh w) c = (Inr tok, c', calls)"
    and "search_fetch w = Resolves resp" "ok resp" "json resp = Inr d"
  shows "body (fst (POST env w c req))
           = SuccessBody
               \<lparr>query = make_query (take 3 (toUpperCase (String_js (origin b))))
                          (take 3 (toUpperCase (String_js (destination b)))) b,
                fetchedAt = now_reply w,
                count = length (filter_offers (maxFlightHours b)
                          (map (normalize_offer (default_to ''EUR'' (currency b)))
                               (or_empty (Option.bind d data)))),
                results = filter_offers (maxFlightHours b)
                          (map (normalize_offer (default_to ''EUR'' (currency b)))
                               (or_empty (Option.bind d data)))\<rparr>"
    and "snd (POST env w c req)
           = (c', calls @ [search_call env (take 3 (toUpperCase (String_js (origin b))))
                             (take 3 (toUpperCase (String_js (destination b)))) b tok])"
  using assms by (simp_all add: POST_def Let_def NextResponse_json_def)

lemma ex_codes:
  "take 3 (toUpperCase ''fra'') = ''FRA''" "take 3 (toUpperCase ''pmi'') = ''PMI''"
  "take 3 (toUpperCase ''jfk'') = ''JFK''" "take 3 (toUpperCase ''JFK'') = ''JFK''"
  by code_simp+

lemma ex_not_bad: "\<not> bad (Val ''fra'')" "\<not> bad (Val ''pmi'')" "\<not> bad (Val ''2025-06-01'')"
  "\<not> bad (Val ''jfk'')" "\<not> bad (Val ''JFK'')" "bad (Val [])"
  by (simp_all add: bad_def trim_def is_space_def)

lemma ex_token:
  "getAmadeusToken ex_env 1000 ex_granted 1200 tokenCache_init
     = (Inr (Some ''tok1''), \<lparr>token = Some ''tok1'', expiresAt = 1800200\<rparr>, [token_call ex_env])"
  by (simp add: getAmadeusToken_def cache_valid_def truthy_def tokenCache_init_def ex_granted_def
      or_num_def)

lemma ex_durations:
  "isoDurationToHours (Some ''PT2H15M'') = 23 / 10"
  "isoDurationToHours (Some ''PT7H30M'') = 15 / 2"
  by code_simp+

lemma ex_totals:
  "totalDurationHours (normalize_offer cur (Some ex_offer_short)) = 23 / 10"
  "totalDurationHours (normalize_offer cur (Some ex_offer_long)) = 49 / 5"
proof -
  have r: "round_tenth (23 / 10) = 23 / 10" "round_tenth (49 / 5) = 49 / 5"
    by code_simp+
  show "totalDurationHours (normalize_offer cur (Some ex_offer_short)) = 23 / 10"
    by (simp add: normalize_offer_def Let_def total_duration_round normalize_itinerary_def
        or_empty_def ex_offer_short_def ex_durations r)
  show "totalDurationHours (normalize_offer cur (Some ex_offer_long)) = 49 / 5"
    by (simp add: normalize_offer_def Let_def total_duration_round normalize_itinerary_def
        or_empty_def ex_offer_long_def ex_durations r)
qed

lemma ex_POST:
  "body (fst (POST ex_env ex_world tokenCache_init (ex_request ex_body)))
     = SuccessBody
         \<lparr>query = make_query ''FRA'' ''PMI'' ex_body,
          fetchedAt = 1500,
          count = length (filter_offers (Val 5)
                    (map (normalize_offer (Val ''EUR'')) [Some ex_offer_short, Some ex_offer_long])),
          results = filter_offers (Val 5)
                    (map (normalize_offer (Val ''EUR'')) [Some ex_offer_short, Some ex_offer_long])\<rparr>"
  "snd (POST ex_env ex_world tokenCache_init (ex_request ex_body))
     = (\<lparr>token = Some ''tok1'', expiresAt = 1800200\<rparr>,
        [token_call ex_env, search_call ex_env ''FRA'' ''PMI'' ex_body (Some ''tok1'')])"
proof -
  have b: "req_json (ex_request ex_body) = Inr ex_body"
    by (simp add: ex_request_def)
  have v: "\<not> bad (origin ex_body)" "\<not> bad (destination ex_body)" "\<not> bad (departDate ex_body)"
    "truthy_num (default_to 1 (adults ex_body))"
    by (simp_all add: ex_body_def ex_not_bad truthy_num_def default_to_def)
  have o: "take 3 (toUpperCase (String_js (origin ex_body))) \<in> set DACH_IATA"
    by (simp add: ex_body_def String_js_def ex_codes DACH_IATA_def)
  have t: "getAmadeusToken ex_env (now_access ex_world) (token_fetch ex_world)
             (now_refresh ex_world) tokenCache_init
           = (Inr (Some ''tok1''), \<lparr>token = Some ''tok1'', expiresAt = 1800200\<rparr>, [token_call ex_env])"
    by (simp add: ex_world_def ex_token)
  have s: "search_fetch ex_world = Resolves \<lparr>ok = True, http_status = 200, body_text = [],
               json = Inr (Some \<lparr>data = Some [Some ex_offer_short, Some ex_offer_long]\<rparr>)\<rparr>"
    by (simp add: ex_world_def ex_search_ok_def)
  note r = POST_reaches_success [OF b v o t s]
  show "body (fst (POST ex_env ex_world tokenCache_init (ex_request ex_body)))
     = SuccessBody
         \<lparr>query = make_query ''FRA'' ''PMI'' ex_body,
          fetchedAt = 1500,
          count = length (filter_offers (Val 5)
                    (map (normalize_offer (Val ''EUR'')) [Some ex_offer_short, Some ex_offer_long])),
          results = filter_offers (Val 5)
                    (map (normalize_offer (Val ''EUR'')) [Some ex_offer_short, Some ex_offer_long])\<rparr>"
    using r(1) by (simp add: ex_body_def String_js_def ex_codes default_to_def or_empty_def ex_world_def)
  show "snd (POST ex_env ex_world tokenCache_init (ex_request ex_body))
     = (\<lparr>token = Some ''tok1'', expiresAt = 1800200\<rparr>,
        [token_call ex_env, search_call ex_env ''FRA'' ''PMI'' ex_body (Some ''tok1'')])"
    using r(2) by (simp add: ex_body_def String_js_def ex_codes)
qed


lemma filter_offers_positive:
  "0 < m \<Longrightarrow> filter_offers (Val m) items = filter (\<lambda>x. totalDurationHours x \<le> m) items"
  by (simp add: filter_offers_def truthy_num_def Number_js_def)

lemma filter_offers_all:
  "mfh = Undefined \<or> mfh = Null \<or> (\<exists>m. mfh = Val m \<and> m \<le> 0) \<Longrightarrow> filter_offers mfh items = items"
  by (auto simp: filter_offers_def truthy_num_def Number_js_def)

text \<open>
  Claim C3. For a request that reaches the filtering step, that is, one answered with the
  success envelope: when \<open>maxFlightHours\<close> is a positive number \<open>m\<close>, the results are
  the normalized offers with \<open>totalDurationHours \<le> m\<close>, in the provider's order, so an
  offer is among the results if and only if it is a normalized offer within the limit; when
  \<open>maxFlightHours\<close> is omitted, \<^verbatim>\<open>null\<close>, zero or negative, the results are all normalized
  offers. The count is the length of the results.
\<close>

theorem maxFlightHours_filter:
  assumes "req_json req = Inr b" and "search_fetch w = Resolves resp" and "json resp = Inr d"
    and "body (fst (POST env w c req)) = SuccessBody e"
  shows "(\<forall>m. maxFlightHours b = Val m \<and> 0 < m \<longrightarrow>
            results e = filter (\<lambda>x. totalDurationHours x \<le> m)
                          (map (normalize_offer (default_to ''EUR'' (currency b)))
                               (or_empty (Option.bind d data)))
          \<and> (\<forall>x. x \<in> set (results e) \<longleftrightarrow>
                 x \<in> set (map (normalize_offer (default_to ''EUR'' (currency b)))
                             (or_empty (Option.bind d data)))
                 \<and> totalDurationHours x \<le> m))
       \<and> (maxFlightHours b = Undefined \<or> maxFlightHours b = Null
            \<or> (\<exists>m. maxFlightHours b = Val m \<and> m \<le> 0) \<longrightarrow>
            results e = map (normalize_offer (default_to ''EUR'' (currency b)))
                            (or_empty (Option.bind d data)))
       \<and> count e = length (results e)"
proof -
  let ?items = "map (normalize_offer (default_to ''EUR'' (currency b))) (or_empty (Option.bind d data))"
  from assms(4) obtain b' resp' d' where
    "req_json req = Inr b'" "search_fetch w = Resolves resp'" "json resp' = Inr d'"
    and e: "e = \<lparr>query = make_query (take 3 (toUpperCase (String_js (origin b'))))
                             (take 3 (toUpperCase (String_js (destination b')))) b',
          fetchedAt = now_reply w,
          count = length (filter_offers (maxFlightHours b')
                    (map (normalize_offer (default_to ''EUR'' (currency b')))
                         (or_empty (Option.bind d' data)))),
          results = filter_offers (maxFlightHours b')
                    (map (normalize_offer (default_to ''EUR'' (currency b')))
                         (or_empty (Option.bind d' data)))\<rparr>"
    by (rule POST_success)
  with assms(1-3) have same: "b' = b" "d' = d" by simp_all
  have res: "results e = filter_offers (maxFlightHours b) ?items"
    and cnt: "count e = length (results e)"
    by (simp_all add: e same)
  have pos: "results e = filter (\<lambda>x. totalDurationHours x \<le> m) ?items"
    if "maxFlightHours b = Val m" "0 < m" for m
    using that by (simp add: res filter_offers_positive)
  have all: "results e = ?items"
    if "maxFlightHours b = Undefined \<or> maxFlightHours b = Null
          \<or> (\<exists>m. maxFlightHours b = Val m \<and> m \<le> 0)"
    using that by (simp only: res filter_offers_all)
  from pos all cnt show ?thesis by auto
qed

theorem maxFlightHours_filter_witness:
  "maxFlightHours ex_body = Val 5
   \<and> (\<exists>e. body (fst (POST ex_env ex_world tokenCache_init (ex_request ex_body))) = SuccessBody e
          \<and> results e = [normalize_offer (Val ''EUR'') (Some ex_offer_short)]
          \<and> count e = 1)
   \<and> map totalDurationHours
        (map (normalize_offer (Val ''EUR'')) [Some ex_offer_short, Some ex_offer_long])
       = [23 / 10, 49 / 5]"
proof -
  have b: "req_json (ex_request ex_body) = Inr ex_body"
    by (simp add: ex_request_def)
  have s: "search_fetch ex_world = Resolves \<lparr>ok = True, http_status = 200, body_text = [],
               json = Inr (Some \<lparr>data = Some [Some ex_offer_short, Some ex_offer_long]\<rparr>)\<rparr>"
    by (simp add: ex_world_def ex_search_ok_def)
  have j: "json \<lparr>ok = True, http_status = 200, body_text = [],
               json = Inr (Some \<lparr>data = Some [Some ex_offer_short, Some ex_offer_long]\<rparr>)\<rparr>
           = Inr (Some \<lparr>data = Some [Some ex_offer_short, Some ex_offer_long]\<rparr>)"
    by simp
  have m: "maxFlightHours ex_body = Val 5" and cur: "currency ex_body = Undefined"
    by (simp_all add: ex_body_def)
  from maxFlightHours_filter [OF b s j ex_POST(1)] m
  show ?thesis
    by (simp add: cur default_to_def or_empty_def ex_totals ex_POST(1))
qed










end
